theory Spec2Isabelle
  imports Main "HOL-Library.AList"
begin

section \<open>The pykafka client entry point and the cluster coordinator behind it\<close>

text \<open>
  The repository source is \<^verbatim>\<open>pykafka/client.py\<close>: the class \<^verbatim>\<open>KafkaClient\<close>, a thin
  facade over \<^verbatim>\<open>pykafka.cluster.Cluster\<close>. The facade is embedded from that file. The
  \<^verbatim>\<open>Cluster\<close> class and \<^verbatim>\<open>ThreadingHandler\<close> are imported by the file but are not part of
  the source at hand; their embedding below follows the specification (sections 3 to 7)
  and every such definition says so.

  Python objects are mutable and shared by reference, so the embedding keeps an explicit
  store: every object has an identity (a \<open>ref\<close>), and the contents of the Broker
  Registry, the Topic Registry, the Connection and the Cluster objects are functions from
  identities to contents. A method takes the store and returns the store it leaves
  behind, together with its result; a raised exception is the \<open>Inl\<close> branch of the
  result.
\<close>

subsection \<open>Data model\<close>

type_synonym ref = nat

text \<open>A candidate broker address \<^verbatim>\<open>host:port\<close>.\<close>

type_synonym address = "string \<times> nat"

text \<open>
  Modelled from the spec: the Partition the coordinator caches (\<^verbatim>\<open>pykafka/cluster.py\<close> and
  what it imports are not part of the source). Section 3: partition id; current leader
  broker id (if present); replica set; in-sync-replica set. A snapshot value.
\<close>

record partition =
  p_id :: nat
  p_leader :: "nat option"
  p_replicas :: "nat list"
  p_isr :: "nat list"

text \<open>
  Modelled from the spec: a Topic's partition map (section 3), from partition id to
  Partition; the Topic's name is its key in the Topic Registry.
\<close>

type_synonym partition_map = "(nat \<times> partition) list"

text \<open>
  Modelled from the spec: the Broker Handle the coordinator registers (not part of the
  source). Sections 3 and 4.2: identity (numeric id, host, port), one Connection
  for general requests and one for offset-channel requests. The two Connection objects
  are held by identity; whether a Connection is currently open is the Connection
  object's own state, kept in the store. The handle's liveness reflects the last
  observed health of its general Connection (section 4.2, \<^verbatim>\<open>is_alive\<close>), so it is read
  from that Connection and has no field of its own.
\<close>

record broker_handle =
  bh_id :: nat
  bh_host :: string
  bh_port :: nat
  bh_conn :: ref
  bh_offsets_conn :: ref

text \<open>
  Modelled from the spec: a decoded metadata response (sections 4.3 and 4.5), the broker
  list and the returned topics. The codec that produces it is outside the source.
\<close>

record metadata =
  md_brokers :: "(nat \<times> string \<times> nat) list"
  md_topics :: "(string \<times> partition_map) list"

text \<open>
  The constructor arguments of \<^verbatim>\<open>Cluster\<close> as \<^verbatim>\<open>KafkaClient.__init__\<close> passes them
  (\<^verbatim>\<open>client.py\<close>, lines 76 to 84): \<^verbatim>\<open>hosts\<close> and the handler by position, the rest by
  keyword.
\<close>

record cluster_args =
  ca_hosts :: string
  ca_handler :: ref
  ca_socket_timeout_ms :: int
  ca_offsets_channel_socket_timeout_ms :: int
  ca_exclude_internal_topics :: bool
  ca_source_address :: string
  ca_zookeeper_hosts :: "string option"

text \<open>
  Modelled from the spec: the state of a \<^verbatim>\<open>Cluster\<close> object of \<^verbatim>\<open>pykafka/cluster.py\<close>, which
  is not part of the source. Section 3: the Broker Registry and the Topic Registry (held
  by identity), the original seed host list, and the configuration received at
  construction. The in-progress-refresh guard of section 3 only separates concurrent
  callers; a sequential caller always finds it clear and leaves it clear, so it has no
  field here.
\<close>

record cluster =
  c_brokers :: ref
  c_topics :: ref
  c_seed_hosts :: "address list"
  c_config :: cluster_args

text \<open>
  The argument of a call of \<^verbatim>\<open>Cluster.update\<close>: no argument at all, or an explicit
  \<^verbatim>\<open>topics\<close> value (\<^verbatim>\<open>None\<close> or a list of topic names).
\<close>

datatype topics_arg = NoArg | Arg "string list option"

text \<open>
  The calls the facade and the coordinator make on the collaborators, in the order they
  happen. Each constructor and each \<^verbatim>\<open>update\<close> records its own invocation on entry.
\<close>

datatype event =
    ThreadingHandler_created ref
  | Cluster_created ref cluster_args
  | Update_called ref topics_arg

record world =
  next_ref :: ref
  broker_registry :: "ref \<Rightarrow> (nat \<times> broker_handle) list"
  topic_registry :: "ref \<Rightarrow> (string \<times> partition_map) list"
  connection_open :: "ref \<Rightarrow> bool"
  cluster_obj :: "ref \<Rightarrow> cluster"
  calls :: "event list"

text \<open>
  Modelled from the spec: what lies outside the process, taken as parameters. The
  bootstrap host-list provider in its two forms (section 6: a static parse of a
  comma-separated list, or a call to the external coordination service), and the
  network, which answers a metadata request sent to an address for the given topics, or
  does not answer (\<open>None\<close>: refusal, reset, timeout).
\<close>

record env =
  static_hosts :: "string \<Rightarrow> address list"
  coordination_lookup :: "string \<Rightarrow> address list"
  metadata_reply :: "address \<Rightarrow> string list option \<Rightarrow> metadata option"

text \<open>
  Modelled from the spec: the two failures of section 7 that reach a caller of the
  coordinator. A connection failure of one broker is the answer \<open>None\<close> of the network
  and is recovered inside a refresh.
\<close>

datatype error = ClusterUnreachable | PartitionNotFound

subsection \<open>Broker Registry and Topic Registry\<close>

text \<open>
  Modelled from the spec: the Broker Registry of \<^verbatim>\<open>pykafka/cluster.py\<close>, which is not part
  of the source. Section 4.3, \<^verbatim>\<open>reconcile(broker_list)\<close>, first half: for each broker in
  the new list not currently tracked, create and register a new Broker Handle,
  unconnected until first use. A new handle gets two fresh Connection objects, both
  closed. A broker is tracked by its identifier.
\<close>

fun register_new :: "(nat \<times> string \<times> nat) list \<Rightarrow> ref \<Rightarrow> world \<Rightarrow> world" where
  "register_new [] r w = w"
| "register_new ((i, h, p) # bs) r w =
     (case map_of (broker_registry w r) i of
        Some tracked \<Rightarrow> register_new bs r w
      | None \<Rightarrow>
          register_new bs r
            (w\<lparr>next_ref := next_ref w + 2,
               connection_open := (connection_open w)(next_ref w := False, next_ref w + 1 := False),
               broker_registry := (broker_registry w)
                 (r := broker_registry w r @
                    [(i, \<lparr>bh_id = i, bh_host = h, bh_port = p,
                          bh_conn = next_ref w, bh_offsets_conn = next_ref w + 1\<rparr>)])\<rparr>))"

text \<open>
  Modelled from the spec: section 3, a Broker is destroyed with its connections closed.
  The two Connections of each handle of a list are closed.
\<close>

fun close_all :: "(nat \<times> broker_handle) list \<Rightarrow> (ref \<Rightarrow> bool) \<Rightarrow> (ref \<Rightarrow> bool)" where
  "close_all [] cs = cs"
| "close_all ((i, b) # bs) cs = close_all bs (cs(bh_conn b := False, bh_offsets_conn b := False))"

text \<open>
  Modelled from the spec: the Broker Registry of \<^verbatim>\<open>pykafka/cluster.py\<close>. Section 4.3,
  \<^verbatim>\<open>reconcile(broker_list)\<close>, second half: for each tracked broker absent from the new
  list, close and remove it. Brokers present in both are left untouched.
\<close>

definition drop_absent :: "nat list \<Rightarrow> ref \<Rightarrow> world \<Rightarrow> world" where
  "drop_absent ids r w =
     w\<lparr>connection_open :=
         close_all (filter (\<lambda>(i, b). i \<notin> set ids) (broker_registry w r)) (connection_open w),
       broker_registry := (broker_registry w)
         (r := filter (\<lambda>(i, b). i \<in> set ids) (broker_registry w r))\<rparr>"

text \<open>
  Modelled from the spec: section 4.3, \<^verbatim>\<open>reconcile(broker_list)\<close> as a whole, the two
  halves in the order the section names them.
\<close>

definition reconcile :: "(nat \<times> string \<times> nat) list \<Rightarrow> ref \<Rightarrow> world \<Rightarrow> world" where
  "reconcile bl r w = drop_absent (map fst bl) r (register_new bl r w)"

text \<open>
  Modelled from the spec: the Topic Registry of \<^verbatim>\<open>pykafka/cluster.py\<close>, which is not part
  of the source. Section 4.4, \<^verbatim>\<open>update(name, partition_map)\<close>, for each returned topic in
  turn: the cached Topic's partition map is replaced wholesale (a topic not yet cached
  is entered). The eviction of unreferenced topics is an opportunistic pass of its own
  (section 4.4) and is no part of a refresh here.
\<close>

fun update_topics ::
  "(string \<times> partition_map) list \<Rightarrow> (string \<times> partition_map) list \<Rightarrow> (string \<times> partition_map) list" where
  "update_topics [] reg = reg"
| "update_topics ((n, pm) # ts) reg = update_topics ts (AList.update n pm reg)"

subsection \<open>Cluster Coordinator\<close>

text \<open>
  Modelled from the spec: the Broker Handle's \<^verbatim>\<open>send\<close> (not part of the source), as the
  coordinator uses it (sections 4.2 and 4.5) for a metadata request to the known brokers
  in turn. A handle connects lazily; when the broker
  answers, its Connection is open afterwards; on a connection failure the handle marks
  itself dead (its Connection is closed) and the next known broker is tried.
\<close>

fun ask_brokers ::
  "env \<Rightarrow> string list option \<Rightarrow> (nat \<times> broker_handle) list \<Rightarrow> (ref \<Rightarrow> bool) \<Rightarrow>
     metadata option \<times> (ref \<Rightarrow> bool)" where
  "ask_brokers e ts [] cs = (None, cs)"
| "ask_brokers e ts ((i, b) # bs) cs =
     (case metadata_reply e (bh_host b, bh_port b) ts of
        Some md \<Rightarrow> (Some md, cs(bh_conn b := True))
      | None \<Rightarrow> ask_brokers e ts bs (cs(bh_conn b := False)))"

text \<open>
  Modelled from the spec: \<^verbatim>\<open>Cluster\<close> of \<^verbatim>\<open>pykafka/cluster.py\<close>, section 4.5: the seed
  candidates are tried in order until one answers a metadata request. A connection to a seed candidate is not a registered
  Broker Handle and leaves nothing in the store.
\<close>

fun ask_seeds :: "env \<Rightarrow> string list option \<Rightarrow> address list \<Rightarrow> metadata option" where
  "ask_seeds e ts [] = None"
| "ask_seeds e ts (a # as) =
     (case metadata_reply e a ts of Some md \<Rightarrow> Some md | None \<Rightarrow> ask_seeds e ts as)"

text \<open>
  Modelled from the spec: \<^verbatim>\<open>Cluster.update\<close> of \<^verbatim>\<open>pykafka/cluster.py\<close>, section 4.5, on
  success: reconciles the Broker Registry and updates the Topic Registry for the returned topics. Both registries are
  the coordinator's own objects, changed in place.
\<close>

definition apply_metadata :: "metadata \<Rightarrow> cluster \<Rightarrow> world \<Rightarrow> world" where
  "apply_metadata md c w =
     (let w1 = reconcile (md_brokers md) (c_brokers c) w
      in w1\<lparr>topic_registry := (topic_registry w1)
               (c_topics c := update_topics (md_topics md) (topic_registry w1 (c_topics c)))\<rparr>)"

text \<open>
  Modelled from the spec: the signature \<^verbatim>\<open>update(topics=None)\<close> of section 4.5. The
  parameter \<^verbatim>\<open>topics\<close> defaults to \<^verbatim>\<open>None\<close>, the full request.
\<close>

definition requested_topics :: "topics_arg \<Rightarrow> string list option" where
  "requested_topics targ = (case targ of NoArg \<Rightarrow> None | Arg t \<Rightarrow> t)"

text \<open>
  Modelled from the spec: \<^verbatim>\<open>Cluster.update\<close> of \<^verbatim>\<open>pykafka/cluster.py\<close>, which is not part of
  the source. Section 4.5: a full (or topic-scoped) metadata request goes to the known
  brokers in turn and finally to the original seed list. On success the answer is
  applied to the registries. On total failure the call fails with \<open>ClusterUnreachable\<close>
  and the registries keep their prior contents; the handles that were tried have marked
  themselves dead.
\<close>

definition Cluster_update :: "env \<Rightarrow> ref \<Rightarrow> topics_arg \<Rightarrow> world \<Rightarrow> (error + unit) \<times> world" where
  "Cluster_update e self targ w0 =
     (let w = w0\<lparr>calls := calls w0 @ [Update_called self targ]\<rparr>;
          c = cluster_obj w self;
          ts = requested_topics targ;
          (answer, cs) = ask_brokers e ts (broker_registry w (c_brokers c)) (connection_open w);
          w1 = w\<lparr>connection_open := cs\<rparr>
      in case answer of
           Some md \<Rightarrow> (Inr (), apply_metadata md c w1)
         | None \<Rightarrow>
             (case ask_seeds e ts (c_seed_hosts c) of
                Some md \<Rightarrow> (Inr (), apply_metadata md c w1)
              | None \<Rightarrow> (Inl ClusterUnreachable, w1)))"

text \<open>
  Modelled from the spec: \<^verbatim>\<open>Cluster\<close> of \<^verbatim>\<open>pykafka/cluster.py\<close>, section 4.5, \<^verbatim>\<open>bootstrap()\<close>,
  first step. The seed description is resolved into the candidate address list: the
  static list, or, if a coordination-service address was supplied, a lookup against
  that service.
\<close>

definition resolve_seed :: "env \<Rightarrow> string \<Rightarrow> string option \<Rightarrow> address list" where
  "resolve_seed e hosts zookeeper_hosts =
     (case zookeeper_hosts of
        Some z \<Rightarrow> coordination_lookup e z
      | None \<Rightarrow> static_hosts e hosts)"

text \<open>
  Modelled from the spec: the constructor of \<^verbatim>\<open>Cluster\<close> of \<^verbatim>\<open>pykafka/cluster.py\<close>, which is
  not part of the source. Section 4.5, \<^verbatim>\<open>bootstrap()\<close>, called once at construction: the
  candidates are tried in order until one answers a metadata request; the construction
  fails with \<open>ClusterUnreachable\<close> if all candidates fail. The new coordinator owns a
  fresh Broker Registry and a fresh Topic Registry, both empty before the first answer
  is applied.
\<close>

definition Cluster_new :: "env \<Rightarrow> cluster_args \<Rightarrow> world \<Rightarrow> (error + ref) \<times> world" where
  "Cluster_new e a w =
     (let self = next_ref w;
          c = \<lparr>c_brokers = self + 1, c_topics = self + 2,
               c_seed_hosts = resolve_seed e (ca_hosts a) (ca_zookeeper_hosts a),
               c_config = a\<rparr>;
          w1 = w\<lparr>next_ref := self + 3,
                 broker_registry := (broker_registry w)(self + 1 := []),
                 topic_registry := (topic_registry w)(self + 2 := []),
                 cluster_obj := (cluster_obj w)(self := c),
                 calls := calls w @ [Cluster_created self a]\<rparr>
      in case ask_seeds e None (c_seed_hosts c) of
           None \<Rightarrow> (Inl ClusterUnreachable, w1)
         | Some md \<Rightarrow> (Inr self, apply_metadata md c w1))"

text \<open>
  Modelled from the spec: \<^verbatim>\<open>Cluster\<close> of \<^verbatim>\<open>pykafka/cluster.py\<close>, section 4.5, the lookup of
  the current leader of a topic-partition. It is absent if the topic or the partition is unknown, if the
  partition names no leader, or if the named broker id is missing from the Broker
  Registry.
\<close>

definition find_leader :: "world \<Rightarrow> ref \<Rightarrow> string \<Rightarrow> nat \<Rightarrow> broker_handle option" where
  "find_leader w self topic part =
     (case map_of (topic_registry w (c_topics (cluster_obj w self))) topic of
        None \<Rightarrow> None
      | Some pm \<Rightarrow>
          (case map_of pm part of
             None \<Rightarrow> None
           | Some p \<Rightarrow>
               (case p_leader p of
                  None \<Rightarrow> None
                | Some b \<Rightarrow> map_of (broker_registry w (c_brokers (cluster_obj w self))) b)))"

text \<open>
  Modelled from the spec: \<^verbatim>\<open>Cluster.leader_for\<close> of \<^verbatim>\<open>pykafka/cluster.py\<close>, which is not part
  of the source. Section 4.5, \<^verbatim>\<open>leader_for(topic, partition)\<close>: looks up the current
  leader; if the lookup is absent, transparently triggers \<^verbatim>\<open>update\<close> once and retries
  the lookup; fails with \<open>PartitionNotFound\<close> if still absent after the refresh. The
  section and the leader-retry property of section 8 name these two outcomes and no
  other: the refresh is transparent to the caller, whose answer is the retried lookup.
\<close>

definition leader_for ::
  "env \<Rightarrow> ref \<Rightarrow> string \<Rightarrow> nat \<Rightarrow> world \<Rightarrow> (error + broker_handle) \<times> world" where
  "leader_for e self topic part w =
     (case find_leader w self topic part of
        Some b \<Rightarrow> (Inr b, w)
      | None \<Rightarrow>
          (let (refreshed, w1) = Cluster_update e self NoArg w
           in case find_leader w1 self topic part of
                Some b \<Rightarrow> (Inr b, w1)
              | None \<Rightarrow> (Inl PartitionNotFound, w1)))"

subsection \<open>The facade: \<^verbatim>\<open>KafkaClient\<close>\<close>

text \<open>
  The arguments of a call of the constructor (\<^verbatim>\<open>client.py\<close>, lines 41 to 47). Every
  parameter has a default, so each argument may be omitted: \<open>None\<close> is an omitted
  argument. \<^verbatim>\<open>zookeeper_hosts\<close> may also be passed as Python's \<^verbatim>\<open>None\<close>, which is
  \<open>Some None\<close>.
\<close>

record init_args =
  arg_hosts :: "string option"
  arg_zookeeper_hosts :: "string option option"
  arg_socket_timeout_ms :: "int option"
  arg_offsets_channel_socket_timeout_ms :: "int option"
  arg_exclude_internal_topics :: "bool option"
  arg_source_address :: "string option"

definition no_args :: init_args where
  "no_args =
     \<lparr>arg_hosts = None, arg_zookeeper_hosts = None, arg_socket_timeout_ms = None,
      arg_offsets_channel_socket_timeout_ms = None, arg_exclude_internal_topics = None,
      arg_source_address = None\<rparr>"

text \<open>
  The attributes of a \<^verbatim>\<open>KafkaClient\<close> object: \<^verbatim>\<open>_seed_hosts\<close>, \<^verbatim>\<open>_source_address\<close>,
  \<^verbatim>\<open>_socket_timeout_ms\<close>, \<^verbatim>\<open>_offsets_channel_socket_timeout_ms\<close>, \<^verbatim>\<open>_handler\<close>,
  \<^verbatim>\<open>cluster\<close>, \<^verbatim>\<open>brokers\<close> and \<^verbatim>\<open>topics\<close>. The last four hold objects, by identity.
\<close>

record KafkaClient =
  kc_seed_hosts :: string
  kc_source_address :: string
  kc_socket_timeout_ms :: int
  kc_offsets_channel_socket_timeout_ms :: int
  kc_handler :: ref
  kc_cluster :: ref
  kc_brokers :: ref
  kc_topics :: ref

text \<open>
  Modelled from the spec: \<^verbatim>\<open>pykafka/handlers.py\<close> is not part of the source.
  \<^verbatim>\<open>ThreadingHandler()\<close> creates a fresh handler object (section 9: the pluggable
  concurrency backend).
\<close>

definition ThreadingHandler_new :: "world \<Rightarrow> ref \<times> world" where
  "ThreadingHandler_new w =
     (next_ref w,
      w\<lparr>next_ref := next_ref w + 1,
        calls := calls w @ [ThreadingHandler_created (next_ref w)]\<rparr>)"

text \<open>
  The parameters of \<^verbatim>\<open>KafkaClient.__init__\<close> once the call is bound to the signature
  (\<^verbatim>\<open>client.py\<close>, lines 41 to 47): an omitted argument takes the default written there.
\<close>

record init_params =
  hosts :: string
  zookeeper_hosts :: "string option"
  socket_timeout_ms :: int
  offsets_channel_socket_timeout_ms :: int
  exclude_internal_topics :: bool
  source_address :: string

definition bind_args :: "init_args \<Rightarrow> init_params" where
  "bind_args args =
     \<lparr>hosts = (case arg_hosts args of None \<Rightarrow> ''127.0.0.1:9092'' | Some h \<Rightarrow> h),
      zookeeper_hosts = (case arg_zookeeper_hosts args of None \<Rightarrow> None | Some z \<Rightarrow> z),
      socket_timeout_ms = (case arg_socket_timeout_ms args of None \<Rightarrow> 30 * 1000 | Some t \<Rightarrow> t),
      offsets_channel_socket_timeout_ms =
        (case arg_offsets_channel_socket_timeout_ms args of None \<Rightarrow> 10 * 1000 | Some t \<Rightarrow> t),
      exclude_internal_topics =
        (case arg_exclude_internal_topics args of None \<Rightarrow> True | Some x \<Rightarrow> x),
      source_address = (case arg_source_address args of None \<Rightarrow> '''' | Some s \<Rightarrow> s)\<rparr>"

text \<open>
  The body of \<^verbatim>\<open>KafkaClient.__init__\<close> (\<^verbatim>\<open>client.py\<close>, lines 71 to 86), statement by
  statement. An exception raised by \<^verbatim>\<open>Cluster(...)\<close> leaves the constructor at line 76,
  before \<^verbatim>\<open>brokers\<close> and \<^verbatim>\<open>topics\<close> are assigned, and no client object results.
\<close>

definition KafkaClient_init :: "env \<Rightarrow> init_args \<Rightarrow> world \<Rightarrow> (error + KafkaClient) \<times> world" where
  "KafkaClient_init e args w =
     (let p = bind_args args;
          seed_hosts = (case zookeeper_hosts p of Some z \<Rightarrow> z | None \<Rightarrow> hosts p);
          (handler, w1) = ThreadingHandler_new w;
          (made, w2) =
            Cluster_new e
              \<lparr>ca_hosts = hosts p, ca_handler = handler,
               ca_socket_timeout_ms = socket_timeout_ms p,
               ca_offsets_channel_socket_timeout_ms = offsets_channel_socket_timeout_ms p,
               ca_exclude_internal_topics = exclude_internal_topics p,
               ca_source_address = source_address p,
               ca_zookeeper_hosts = zookeeper_hosts p\<rparr> w1
      in case made of
           Inl err \<Rightarrow> (Inl err, w2)
         | Inr cl \<Rightarrow>
             (Inr \<lparr>kc_seed_hosts = seed_hosts, kc_source_address = source_address p,
                   kc_socket_timeout_ms = socket_timeout_ms p,
                   kc_offsets_channel_socket_timeout_ms = offsets_channel_socket_timeout_ms p,
                   kc_handler = handler, kc_cluster = cl,
                   kc_brokers = c_brokers (cluster_obj w2 cl),
                   kc_topics = c_topics (cluster_obj w2 cl)\<rparr>, w2))"

text \<open>
  \<^verbatim>\<open>KafkaClient.update_cluster\<close> (\<^verbatim>\<open>client.py\<close>, lines 96 to 102): the one statement
  \<^verbatim>\<open>self.cluster.update()\<close>. The method returns nothing; an exception of the call passes
  through. The remaining method, \<^verbatim>\<open>__repr__\<close>, formats the address of the object and is
  not embedded; it is the only reader of \<^verbatim>\<open>_seed_hosts\<close>.
\<close>

definition update_cluster :: "env \<Rightarrow> KafkaClient \<Rightarrow> world \<Rightarrow> (error + unit) \<times> world" where
  "update_cluster e self w = Cluster_update e (kc_cluster self) NoArg w"

subsection \<open>Later refreshes\<close>

text \<open>
  A run of later calls of \<^verbatim>\<open>update\<close> on one coordinator, each with its own argument and
  under its own state of the network; a call that fails leaves the run going, as a
  caller that catches the exception would.
\<close>

fun refreshes :: "ref \<Rightarrow> (env \<times> topics_arg) list \<Rightarrow> world \<Rightarrow> world" where
  "refreshes self [] w = w"
| "refreshes self ((e, targ) # rs) w = refreshes self rs (snd (Cluster_update e self targ w))"

subsection \<open>Observations\<close>

text \<open>
  The argument list of the call \<^verbatim>\<open>Cluster(...)\<close> at lines 76 to 84 of \<^verbatim>\<open>client.py\<close>, as a
  function of the bound parameters and of the handler created at line 75.
\<close>

definition forwarded :: "init_params \<Rightarrow> ref \<Rightarrow> cluster_args" where
  "forwarded p h =
     \<lparr>ca_hosts = hosts p, ca_handler = h,
      ca_socket_timeout_ms = socket_timeout_ms p,
      ca_offsets_channel_socket_timeout_ms = offsets_channel_socket_timeout_ms p,
      ca_exclude_internal_topics = exclude_internal_topics p,
      ca_source_address = source_address p,
      ca_zookeeper_hosts = zookeeper_hosts p\<rparr>"

text \<open>The Connection objects held by the handles of a Broker Registry.\<close>

definition connection_objects :: "world \<Rightarrow> ref \<Rightarrow> ref set" where
  "connection_objects w r =
     (\<Union>(i, b) \<in> set (broker_registry w r). {bh_conn b, bh_offsets_conn b})"

subsection \<open>A concrete cluster\<close>

text \<open>
  Two metadata answers: brokers 1 and 2 with topic \<^verbatim>\<open>t\<close> led by broker 2; later, broker 1
  is gone, broker 3 has joined and leads the new topic \<^verbatim>\<open>u\<close>.
\<close>

definition example_metadata :: metadata where
  "example_metadata =
     \<lparr>md_brokers = [(1, ''k1'', 9092), (2, ''k2'', 9092)],
      md_topics =
        [(''t'', [(0, \<lparr>p_id = 0, p_leader = Some 2, p_replicas = [1, 2], p_isr = [2]\<rparr>)])]\<rparr>"

definition moved_metadata :: metadata where
  "moved_metadata =
     \<lparr>md_brokers = [(2, ''k2'', 9092), (3, ''k3'', 9092)],
      md_topics =
        [(''u'', [(0, \<lparr>p_id = 0, p_leader = Some 3, p_replicas = [2, 3], p_isr = [3]\<rparr>)])]\<rparr>"

text \<open>
  Three states of the outside: every address on port 9092 answers with the first
  metadata; every such address answers with the second; nothing answers.
\<close>

definition reachable_env :: env where
  "reachable_env =
     \<lparr>static_hosts = (\<lambda>s. if s = ''127.0.0.1:9092'' then [(''127.0.0.1'', 9092)] else []),
      coordination_lookup = (\<lambda>z. if z = ''zk1:2181'' then [(''k1'', 9092), (''k2'', 9092)] else []),
      metadata_reply = (\<lambda>a ts. if snd a = 9092 then Some example_metadata else None)\<rparr>"

definition moved_env :: env where
  "moved_env =
     reachable_env\<lparr>metadata_reply := (\<lambda>a ts. if snd a = 9092 then Some moved_metadata else None)\<rparr>"

definition unreachable_env :: env where
  "unreachable_env = reachable_env\<lparr>metadata_reply := (\<lambda>a ts. None)\<rparr>"

text \<open>The store before any object exists.\<close>

definition empty_world :: world where
  "empty_world =
     \<lparr>next_ref = 0, broker_registry = (\<lambda>r. []), topic_registry = (\<lambda>r. []),
      connection_open = (\<lambda>r. False),
      cluster_obj = (\<lambda>r. \<lparr>c_brokers = 0, c_topics = 0, c_seed_hosts = [],
        c_config = \<lparr>ca_hosts = '''', ca_handler = 0, ca_socket_timeout_ms = 0,
          ca_offsets_channel_socket_timeout_ms = 0, ca_exclude_internal_topics = False,
          ca_source_address = '''', ca_zookeeper_hosts = None\<rparr>\<rparr>),
      calls = []\<rparr>"

text \<open>
  \<^verbatim>\<open>KafkaClient()\<close> in the empty store while the first metadata is served: the store it
  leaves and the client it returns. A second call of the constructor passes a host list
  and a coordination-service address.
\<close>

definition example_world :: world where
  "example_world = snd (KafkaClient_init reachable_env no_args empty_world)"

definition example_client :: KafkaClient where
  "example_client =
     \<lparr>kc_seed_hosts = ''127.0.0.1:9092'', kc_source_address = '''',
      kc_socket_timeout_ms = 30000, kc_offsets_channel_socket_timeout_ms = 10000,
      kc_handler = 0, kc_cluster = 1, kc_brokers = 2, kc_topics = 3\<rparr>"

definition zookeeper_args :: init_args where
  "zookeeper_args =
     no_args\<lparr>arg_hosts := Some ''k9:9092'', arg_zookeeper_hosts := Some (Some ''zk1:2181'')\<rparr>"

text \<open>
  A call of the constructor that passes every argument, none of them with the value of
  its default.
\<close>

definition custom_args :: init_args where
  "custom_args =
     \<lparr>arg_hosts = Some ''k9:9092'', arg_zookeeper_hosts = Some (Some ''zk1:2181''),
      arg_socket_timeout_ms = Some 5, arg_offsets_channel_socket_timeout_ms = Some 7,
      arg_exclude_internal_topics = Some False, arg_source_address = Some ''10.0.0.1:4000''\<rparr>"

text \<open>
  A call that passes one option only, by keyword: \<^verbatim>\<open>KafkaClient(socket_timeout_ms=5)\<close>.
\<close>

definition timeout_args :: init_args where
  "timeout_args = no_args\<lparr>arg_socket_timeout_ms := Some 5\<rparr>"

text \<open>A state of the outside in which broker 2 alone serves the first metadata.\<close>

definition k2_only_env :: env where
  "k2_only_env =
     reachable_env\<lparr>metadata_reply :=
       (\<lambda>a ts. if a = (''k2'', 9092) then Some example_metadata else None)\<rparr>"

text \<open>
  A cached leader that goes stale. A response that lists brokers 1 and 3 and returns no
  topic removes broker 2 from the Broker Registry while topic \<^verbatim>\<open>t\<close> still names it as the
  leader of partition 0. A later response returns topic \<^verbatim>\<open>t\<close> with broker 3 as the leader.
\<close>

definition shrunk_metadata :: metadata where
  "shrunk_metadata = \<lparr>md_brokers = [(1, ''k1'', 9092), (3, ''k3'', 9092)], md_topics = []\<rparr>"

definition shrunk_env :: env where
  "shrunk_env =
     reachable_env\<lparr>metadata_reply := (\<lambda>a ts. if snd a = 9092 then Some shrunk_metadata else None)\<rparr>"



definition stale_world :: world where
  "stale_world = snd (Cluster_update shrunk_env 1 NoArg example_world)"

section \<open>Properties\<close>

subsection \<open>What reconciliation leaves alone\<close>

lemma register_new_calls [simp]: "calls (register_new bl r w) = calls w"
  by (induction bl r w rule: register_new.induct) (auto split: option.splits)

lemma register_new_cluster_obj [simp]: "cluster_obj (register_new bl r w) = cluster_obj w"
  by (induction bl r w rule: register_new.induct) (auto split: option.splits)

lemma register_new_topic_registry [simp]:
  "topic_registry (register_new bl r w) = topic_registry w"
  by (induction bl r w rule: register_new.induct) (auto split: option.splits)

lemma reconcile_calls [simp]: "calls (reconcile bl r w) = calls w"
  by (simp add: reconcile_def drop_absent_def)

lemma reconcile_cluster_obj [simp]: "cluster_obj (reconcile bl r w) = cluster_obj w"
  by (simp add: reconcile_def drop_absent_def)

lemma reconcile_topic_registry [simp]: "topic_registry (reconcile bl r w) = topic_registry w"
  by (simp add: reconcile_def drop_absent_def)

lemma apply_metadata_calls [simp]: "calls (apply_metadata md c w) = calls w"
  by (simp add: apply_metadata_def Let_def)

lemma apply_metadata_cluster_obj [simp]: "cluster_obj (apply_metadata md c w) = cluster_obj w"
  by (simp add: apply_metadata_def Let_def)

subsection \<open>The broker ids of a reconciled registry\<close>

lemma register_new_keys:
  "fst ` set (broker_registry (register_new bl r w) r) =
     fst ` set (broker_registry w r) \<union> fst ` set bl"
proof (induction bl r w rule: register_new.induct)
  case (1 r w)
  show ?case by simp
next
  case (2 i h p bs r w)
  show ?case
  proof (cases "map_of (broker_registry w r) i")
    case None
    with 2 show ?thesis by auto
  next
    case (Some tracked)
    then have "i \<in> fst ` set (broker_registry w r)"
      by (metis map_of_eq_None_iff option.distinct(1))
    with 2 Some show ?thesis by auto
  qed
qed

lemma register_new_all_tracked:
  "fst ` set bl \<subseteq> fst ` set (broker_registry w r) \<Longrightarrow> register_new bl r w = w"
proof (induction bl r w rule: register_new.induct)
  case (1 r w)
  show ?case by simp
next
  case (2 i h p bs r w)
  then have "i \<in> fst ` set (broker_registry w r)" by simp
  then obtain tracked where "map_of (broker_registry w r) i = Some tracked"
    by (metis map_of_eq_None_iff not_Some_eq)
  with 2 show ?case by simp
qed

lemma drop_absent_none_absent:
  assumes "fst ` set (broker_registry w r) \<subseteq> set ids"
  shows "drop_absent ids r w = w"
proof -
  have keep: "filter (\<lambda>(i, b). i \<in> set ids) (broker_registry w r) = broker_registry w r"
    using assms by (auto simp: filter_id_conv)
  have gone: "filter (\<lambda>(i, b). i \<notin> set ids) (broker_registry w r) = []"
    using assms by (auto simp: filter_empty_conv)
  show ?thesis by (simp add: drop_absent_def keep gone)
qed

lemma keys_filter:
  "fst ` set (filter (\<lambda>(i, b). i \<in> S) xs) = fst ` set xs \<inter> S"
  by (induction xs) auto

lemma reconcile_keys:
  "fst ` set (broker_registry (reconcile bl r w) r) = fst ` set bl"
proof -
  have "fst ` set (broker_registry (reconcile bl r w) r) =
      fst ` set (broker_registry (register_new bl r w) r) \<inter> set (map fst bl)"
    by (simp add: reconcile_def drop_absent_def keys_filter del: set_filter)
  also have "\<dots> = (fst ` set (broker_registry w r) \<union> fst ` set bl) \<inter> fst ` set bl"
    by (simp add: register_new_keys)
  also have "\<dots> = fst ` set bl" by blast
  finally show ?thesis .
qed

lemma reconcile_reconciled:
  assumes "fst ` set (broker_registry w r) = fst ` set bl"
  shows "reconcile bl r w = w"
proof -
  have "register_new bl r w = w"
    using assms by (simp add: register_new_all_tracked)
  moreover have "drop_absent (map fst bl) r w = w"
    using assms by (simp add: drop_absent_none_absent)
  ultimately show ?thesis by (simp add: reconcile_def)
qed

lemma apply_metadata_broker_keys:
  "fst ` set (broker_registry (apply_metadata md c w) (c_brokers c)) = fst ` set (md_brokers md)"
  by (simp add: apply_metadata_def Let_def reconcile_keys)

lemma apply_metadata_reconciled:
  assumes "fst ` set (broker_registry w (c_brokers c)) = fst ` set (md_brokers md)"
  shows "broker_registry (apply_metadata md c w) = broker_registry w"
    and "next_ref (apply_metadata md c w) = next_ref w"
    and "connection_open (apply_metadata md c w) = connection_open w"
  using assms by (simp_all add: apply_metadata_def Let_def reconcile_reconciled)

subsection \<open>The outcomes of a refresh\<close>

lemma ask_brokers_all_fail:
  "list_all (\<lambda>(i, b). metadata_reply e (bh_host b, bh_port b) ts = None) bs \<Longrightarrow>
     fst (ask_brokers e ts bs cs) = None"
  by (induction e ts bs cs rule: ask_brokers.induct) auto

lemma ask_seeds_all_fail:
  "list_all (\<lambda>a. metadata_reply e a ts = None) as \<Longrightarrow> ask_seeds e ts as = None"
  by (induction as) auto

lemma ask_brokers_answer:
  "fst (ask_brokers e ts bs cs) = Some md \<Longrightarrow> \<exists>a. metadata_reply e a ts = Some md"
  by (induction e ts bs cs rule: ask_brokers.induct) (auto split: option.splits)

lemma ask_seeds_answer:
  "ask_seeds e ts as = Some md \<Longrightarrow> \<exists>a. metadata_reply e a ts = Some md"
  by (induction as) (auto split: option.splits)

text \<open>What the requests of a refresh do to the Connections.\<close>

lemma ask_brokers_elsewhere:
  "c \<notin> (\<lambda>(i, b). bh_conn b) ` set bs \<Longrightarrow> snd (ask_brokers e ts bs cs) c = cs c"
  by (induction e ts bs cs rule: ask_brokers.induct) (auto split: option.splits)

lemma ask_brokers_all_answer:
  "list_all (\<lambda>(i, b). metadata_reply e (bh_host b, bh_port b) ts \<noteq> None) bs \<Longrightarrow>
     snd (ask_brokers e ts bs cs) = (case bs of [] \<Rightarrow> cs | (i, b) # rest \<Rightarrow> cs(bh_conn b := True))"
  by (cases bs) auto

lemma Cluster_update_calls:
  "calls (snd (Cluster_update e self targ w)) = calls w @ [Update_called self targ]"
  by (simp add: Cluster_update_def Let_def split: prod.splits option.splits)

lemma Cluster_update_cluster_obj:
  "cluster_obj (snd (Cluster_update e self targ w)) = cluster_obj w"
  by (simp add: Cluster_update_def Let_def split: prod.splits option.splits)

lemma Cluster_update_failure:
  assumes "fst (ask_brokers e (requested_topics targ)
             (broker_registry w (c_brokers (cluster_obj w self))) (connection_open w)) = None"
    and "ask_seeds e (requested_topics targ) (c_seed_hosts (cluster_obj w self)) = None"
  shows "fst (Cluster_update e self targ w) = Inl ClusterUnreachable"
    and "broker_registry (snd (Cluster_update e self targ w)) = broker_registry w"
    and "topic_registry (snd (Cluster_update e self targ w)) = topic_registry w"
    and "next_ref (snd (Cluster_update e self targ w)) = next_ref w"
  using assms by (auto simp: Cluster_update_def Let_def split: prod.splits option.splits)

lemma Cluster_update_answered:
  assumes "broker_registry w (c_brokers (cluster_obj w self)) = (i, b) # bs"
    and "metadata_reply e (bh_host b, bh_port b) (requested_topics targ) = Some md"
  shows "fst (Cluster_update e self targ w) = Inr ()"
  using assms by (simp add: Cluster_update_def Let_def)

text \<open>
  A refresh either reaches nobody, fails and changes nothing but the call record and the
  Connection state its requests left, or applies one answer of the network to that store.
\<close>

lemma Cluster_update_outcome:
  "(fst (Cluster_update e self targ w) = Inl ClusterUnreachable
      \<and> snd (Cluster_update e self targ w) =
          w\<lparr>calls := calls w @ [Update_called self targ],
            connection_open := snd (ask_brokers e (requested_topics targ)
               (broker_registry w (c_brokers (cluster_obj w self))) (connection_open w))\<rparr>)
   \<or> (\<exists>md a. metadata_reply e a (requested_topics targ) = Some md
      \<and> fst (Cluster_update e self targ w) = Inr ()
      \<and> snd (Cluster_update e self targ w) =
          apply_metadata md (cluster_obj w self)
            (w\<lparr>calls := calls w @ [Update_called self targ],
               connection_open := snd (ask_brokers e (requested_topics targ)
                 (broker_registry w (c_brokers (cluster_obj w self))) (connection_open w))\<rparr>))"
proof (cases "ask_brokers e (requested_topics targ)
                (broker_registry w (c_brokers (cluster_obj w self))) (connection_open w)")
  case (Pair answer cs)
  show ?thesis
  proof (cases answer)
    case (Some md)
    with Pair have "fst (ask_brokers e (requested_topics targ)
        (broker_registry w (c_brokers (cluster_obj w self))) (connection_open w)) = Some md"
      by simp
    then have "\<exists>a. metadata_reply e a (requested_topics targ) = Some md"
      by (rule ask_brokers_answer)
    with Pair Some show ?thesis
      by (auto simp: Cluster_update_def Let_def)
  next
    case None
    show ?thesis
    proof (cases "ask_seeds e (requested_topics targ) (c_seed_hosts (cluster_obj w self))")
      case no_seed: None
      with Pair None show ?thesis
        by (simp add: Cluster_update_def Let_def)
    next
      case (Some md)
      then have "\<exists>a. metadata_reply e a (requested_topics targ) = Some md"
        by (rule ask_seeds_answer)
      with Pair None Some show ?thesis
        by (auto simp: Cluster_update_def Let_def)
    qed
  qed
qed

lemma refreshes_cluster_obj: "cluster_obj (refreshes self rs w) = cluster_obj w"
  by (induction self rs w rule: refreshes.induct) (simp_all add: Cluster_update_cluster_obj)

subsection \<open>The construction of a coordinator and of a client\<close>

lemma Cluster_new_calls:
  "calls (snd (Cluster_new e a w)) = calls w @ [Cluster_created (next_ref w) a]"
  by (simp add: Cluster_new_def Let_def split: option.splits)

lemma Cluster_new_cluster_obj:
  "cluster_obj (snd (Cluster_new e a w)) =
     (cluster_obj w)(next_ref w :=
        \<lparr>c_brokers = next_ref w + 1, c_topics = next_ref w + 2,
         c_seed_hosts = resolve_seed e (ca_hosts a) (ca_zookeeper_hosts a), c_config = a\<rparr>)"
  by (simp add: Cluster_new_def Let_def split: option.splits)

lemma KafkaClient_init_world:
  "snd (KafkaClient_init e args w) =
     snd (Cluster_new e (forwarded (bind_args args) (next_ref w))
       (w\<lparr>next_ref := next_ref w + 1,
          calls := calls w @ [ThreadingHandler_created (next_ref w)]\<rparr>))"
  by (simp add: KafkaClient_init_def ThreadingHandler_new_def forwarded_def Let_def
      split: prod.splits sum.splits)

lemma KafkaClient_init_calls:
  "calls (snd (KafkaClient_init e args w)) =
     calls w @ [ThreadingHandler_created (next_ref w),
                Cluster_created (next_ref w + 1) (forwarded (bind_args args) (next_ref w))]"
  by (simp add: KafkaClient_init_world Cluster_new_calls)

lemma KafkaClient_init_result:
  "fst (KafkaClient_init e args w) =
     (case ask_seeds e None
             (resolve_seed e (hosts (bind_args args)) (zookeeper_hosts (bind_args args))) of
        None \<Rightarrow> Inl ClusterUnreachable
      | Some md \<Rightarrow>
          Inr \<lparr>kc_seed_hosts =
                 (case zookeeper_hosts (bind_args args) of
                    Some z \<Rightarrow> z | None \<Rightarrow> hosts (bind_args args)),
               kc_source_address = source_address (bind_args args),
               kc_socket_timeout_ms = socket_timeout_ms (bind_args args),
               kc_offsets_channel_socket_timeout_ms =
                 offsets_channel_socket_timeout_ms (bind_args args),
               kc_handler = next_ref w, kc_cluster = next_ref w + 1,
               kc_brokers = next_ref w + 2, kc_topics = next_ref w + 3\<rparr>)"
  by (simp add: KafkaClient_init_def ThreadingHandler_new_def Cluster_new_def Let_def
      split: prod.splits option.splits)

subsection \<open>The concrete cluster, evaluated\<close>

lemma example_client_made:
  "fst (KafkaClient_init reachable_env no_args empty_world) = Inr example_client"
  by (simp add: KafkaClient_init_result bind_args_def no_args_def resolve_seed_def
      reachable_env_def empty_world_def example_client_def)

lemma example_world_calls:
  "calls example_world =
     [ThreadingHandler_created 0,
      Cluster_created 1
        \<lparr>ca_hosts = ''127.0.0.1:9092'', ca_handler = 0, ca_socket_timeout_ms = 30000,
         ca_offsets_channel_socket_timeout_ms = 10000, ca_exclude_internal_topics = True,
         ca_source_address = '''', ca_zookeeper_hosts = None\<rparr>]"
  by (simp add: example_world_def KafkaClient_init_calls forwarded_def
      bind_args_def no_args_def empty_world_def)

lemma example_world_cluster:
  "cluster_obj example_world (Suc 0) =
     \<lparr>c_brokers = 2, c_topics = 3, c_seed_hosts = [(''127.0.0.1'', 9092)],
      c_config = \<lparr>ca_hosts = ''127.0.0.1:9092'', ca_handler = 0, ca_socket_timeout_ms = 30000,
          ca_offsets_channel_socket_timeout_ms = 10000, ca_exclude_internal_topics = True,
          ca_source_address = '''', ca_zookeeper_hosts = None\<rparr>\<rparr>"
  by (simp add: example_world_def KafkaClient_init_world Cluster_new_cluster_obj forwarded_def
      bind_args_def no_args_def resolve_seed_def reachable_env_def empty_world_def)

lemmas construction_simps =
  example_world_def KafkaClient_init_world Cluster_new_def forwarded_def
  bind_args_def no_args_def resolve_seed_def reachable_env_def empty_world_def
  apply_metadata_def reconcile_def drop_absent_def example_metadata_def Let_def

lemma example_world_brokers:
  "broker_registry example_world 2 =
     [(1, \<lparr>bh_id = 1, bh_host = ''k1'', bh_port = 9092, bh_conn = 4, bh_offsets_conn = 5\<rparr>),
      (2, \<lparr>bh_id = 2, bh_host = ''k2'', bh_port = 9092, bh_conn = 6, bh_offsets_conn = 7\<rparr>)]"
  by (simp add: construction_simps)

lemma example_world_topics:
  "topic_registry example_world 3 =
     [(''t'', [(0, \<lparr>p_id = 0, p_leader = Some 2, p_replicas = [1, 2], p_isr = [2]\<rparr>)])]"
  by (simp add: construction_simps)

lemma example_world_next_ref: "next_ref example_world = 8"
  by (simp add: construction_simps)

lemma example_world_connections: "\<not> connection_open example_world r"
  by (simp add: construction_simps)

lemmas example_world_simps =
  example_world_cluster example_world_brokers example_world_topics example_world_next_ref
  example_world_calls example_world_connections

lemmas refresh_simps =
  Cluster_update_def Let_def requested_topics_def apply_metadata_def reconcile_def drop_absent_def

lemma moved_refresh_result:
  "fst (Cluster_update moved_env (Suc 0) NoArg example_world) = Inr ()"
  by (simp add: refresh_simps example_world_simps moved_env_def reachable_env_def)

lemma moved_refresh_brokers:
  "broker_registry (snd (Cluster_update moved_env (Suc 0) NoArg example_world)) 2 =
     [(2, \<lparr>bh_id = 2, bh_host = ''k2'', bh_port = 9092, bh_conn = 6, bh_offsets_conn = 7\<rparr>),
      (3, \<lparr>bh_id = 3, bh_host = ''k3'', bh_port = 9092, bh_conn = 8, bh_offsets_conn = 9\<rparr>)]"
  by (simp add: refresh_simps example_world_simps moved_env_def reachable_env_def
      moved_metadata_def)

lemma moved_refresh_topics:
  "topic_registry (snd (Cluster_update moved_env (Suc 0) NoArg example_world)) 3 =
     [(''t'', [(0, \<lparr>p_id = 0, p_leader = Some 2, p_replicas = [1, 2], p_isr = [2]\<rparr>)]),
      (''u'', [(0, \<lparr>p_id = 0, p_leader = Some 3, p_replicas = [2, 3], p_isr = [3]\<rparr>)])]"
  by (simp add: refresh_simps example_world_simps moved_env_def reachable_env_def
      moved_metadata_def)

lemma moved_refresh_next_ref:
  "next_ref (snd (Cluster_update moved_env (Suc 0) NoArg example_world)) = 10"
  by (simp add: refresh_simps example_world_simps moved_env_def reachable_env_def
      moved_metadata_def)

lemma k2_refresh_result:
  "fst (Cluster_update k2_only_env (Suc 0) NoArg example_world) = Inr ()"
  by (simp add: refresh_simps example_world_simps k2_only_env_def reachable_env_def)

lemma k2_refresh_brokers:
  "broker_registry (snd (Cluster_update k2_only_env (Suc 0) NoArg example_world)) 2 =
     [(1, \<lparr>bh_id = 1, bh_host = ''k1'', bh_port = 9092, bh_conn = 4, bh_offsets_conn = 5\<rparr>),
      (2, \<lparr>bh_id = 2, bh_host = ''k2'', bh_port = 9092, bh_conn = 6, bh_offsets_conn = 7\<rparr>)]"
  by (simp add: refresh_simps example_world_simps k2_only_env_def reachable_env_def
      example_metadata_def)

lemma k2_refresh_connections:
  "connection_open (snd (Cluster_update k2_only_env (Suc 0) NoArg example_world)) 4 = False"
  "connection_open (snd (Cluster_update k2_only_env (Suc 0) NoArg example_world)) 5 = False"
  "connection_open (snd (Cluster_update k2_only_env (Suc 0) NoArg example_world)) 6 = True"
  "connection_open (snd (Cluster_update k2_only_env (Suc 0) NoArg example_world)) 7 = False"
  by (simp_all add: refresh_simps example_world_simps k2_only_env_def reachable_env_def
      example_metadata_def)

lemma k2_refresh_next_ref:
  "next_ref (snd (Cluster_update k2_only_env (Suc 0) NoArg example_world)) = 8"
  by (simp add: refresh_simps example_world_simps k2_only_env_def reachable_env_def
      example_metadata_def)


lemma stale_world_calls: "calls stale_world = calls example_world @ [Update_called 1 NoArg]"
  by (simp add: stale_world_def Cluster_update_calls)











section \<open>The claims\<close>

subsection \<open>The facade\<close>

text \<open>
  C1. Calling \<^verbatim>\<open>KafkaClient.update_cluster()\<close> invokes the coordinator's \<^verbatim>\<open>update()\<close>
  exactly once, with no topic argument, and does nothing else: the call record grows by
  the one entry of that invocation, on the client's own coordinator; result and store
  are those of that one invocation; no coordinator object is replaced.
\<close>

theorem update_cluster_pass_through:
  "calls (snd (update_cluster e kc w)) = calls w @ [Update_called (kc_cluster kc) NoArg]
   \<and> update_cluster e kc w = Cluster_update e (kc_cluster kc) NoArg w
   \<and> cluster_obj (snd (update_cluster e kc w)) = cluster_obj w"
  by (simp add: update_cluster_def Cluster_update_calls Cluster_update_cluster_obj)

theorem update_cluster_pass_through_witness:
  "calls (snd (update_cluster moved_env example_client example_world)) =
     [ThreadingHandler_created 0,
      Cluster_created 1
        \<lparr>ca_hosts = ''127.0.0.1:9092'', ca_handler = 0, ca_socket_timeout_ms = 30000,
         ca_offsets_channel_socket_timeout_ms = 10000, ca_exclude_internal_topics = True,
         ca_source_address = '''', ca_zookeeper_hosts = None\<rparr>,
      Update_called 1 NoArg]
   \<and> fst (update_cluster moved_env example_client example_world) = Inr ()"
  using update_cluster_pass_through [of moved_env example_client example_world]
  by (simp add: example_client_def example_world_calls moved_refresh_result Cluster_update_calls)

text \<open>
  C2. If a coordination-service (ZooKeeper) address is supplied at construction, it is
  the seed description, whatever the host list is: the coordinator receives the address
  and resolves its candidate list by a lookup against the coordination service, the
  construction succeeds exactly when one of those candidates answers, and the client
  then records the address as its \<^verbatim>\<open>_seed_hosts\<close>.
\<close>

theorem zookeeper_hosts_take_precedence:
  assumes "arg_zookeeper_hosts args = Some (Some z)"
  shows "c_seed_hosts (cluster_obj (snd (KafkaClient_init e args w)) (next_ref w + 1)) =
           coordination_lookup e z
       \<and> ca_zookeeper_hosts (c_config (cluster_obj (snd (KafkaClient_init e args w)) (next_ref w + 1))) =
           Some z
       \<and> fst (KafkaClient_init e args w) =
           (case ask_seeds e None (coordination_lookup e z) of
              None \<Rightarrow> Inl ClusterUnreachable
            | Some md \<Rightarrow>
                Inr \<lparr>kc_seed_hosts = z,
                     kc_source_address = source_address (bind_args args),
                     kc_socket_timeout_ms = socket_timeout_ms (bind_args args),
                     kc_offsets_channel_socket_timeout_ms =
                       offsets_channel_socket_timeout_ms (bind_args args),
                     kc_handler = next_ref w, kc_cluster = next_ref w + 1,
                     kc_brokers = next_ref w + 2, kc_topics = next_ref w + 3\<rparr>)"
proof -
  from assms have zk: "zookeeper_hosts (bind_args args) = Some z"
    by (simp add: bind_args_def)
  have obj: "cluster_obj (snd (KafkaClient_init e args w)) (next_ref w + 1) =
      \<lparr>c_brokers = next_ref w + 2, c_topics = next_ref w + 3,
       c_seed_hosts = coordination_lookup e z,
       c_config = forwarded (bind_args args) (next_ref w)\<rparr>"
    by (simp add: KafkaClient_init_world Cluster_new_cluster_obj forwarded_def resolve_seed_def zk)
  have res: "fst (KafkaClient_init e args w) =
           (case ask_seeds e None (coordination_lookup e z) of
              None \<Rightarrow> Inl ClusterUnreachable
            | Some md \<Rightarrow>
                Inr \<lparr>kc_seed_hosts = z,
                     kc_source_address = source_address (bind_args args),
                     kc_socket_timeout_ms = socket_timeout_ms (bind_args args),
                     kc_offsets_channel_socket_timeout_ms =
                       offsets_channel_socket_timeout_ms (bind_args args),
                     kc_handler = next_ref w, kc_cluster = next_ref w + 1,
                     kc_brokers = next_ref w + 2, kc_topics = next_ref w + 3\<rparr>)"
    by (simp add: KafkaClient_init_result resolve_seed_def zk cong: option.case_cong)
  from obj res show ?thesis
    by (simp add: forwarded_def zk)
qed

theorem zookeeper_hosts_take_precedence_witness:
  "arg_zookeeper_hosts zookeeper_args = Some (Some ''zk1:2181'')
   \<and> arg_hosts zookeeper_args = Some ''k9:9092''
   \<and> c_seed_hosts (cluster_obj (snd (KafkaClient_init reachable_env zookeeper_args empty_world)) 1) =
       [(''k1'', 9092), (''k2'', 9092)]
   \<and> fst (KafkaClient_init reachable_env zookeeper_args empty_world) =
       Inr \<lparr>kc_seed_hosts = ''zk1:2181'', kc_source_address = '''',
            kc_socket_timeout_ms = 30000, kc_offsets_channel_socket_timeout_ms = 10000,
            kc_handler = 0, kc_cluster = 1, kc_brokers = 2, kc_topics = 3\<rparr>"
  using zookeeper_hosts_take_precedence [of zookeeper_args "''zk1:2181''" reachable_env empty_world]
  by (simp add: zookeeper_args_def no_args_def bind_args_def reachable_env_def empty_world_def)

text \<open>
  C3. When the client is constructed without the options \<^verbatim>\<open>socket_timeout_ms\<close>,
  \<^verbatim>\<open>offsets_channel_socket_timeout_ms\<close> and \<^verbatim>\<open>exclude_internal_topics\<close>, its configuration
  takes the defaults 30000, 10000 and true: these are the values the one \<^verbatim>\<open>Cluster\<close>
  constructor call carries, the values the coordinator holds, and the values of the
  client's own two timeout attributes.
\<close>

theorem default_configuration:
  assumes "arg_socket_timeout_ms args = None"
    and "arg_offsets_channel_socket_timeout_ms args = None"
    and "arg_exclude_internal_topics args = None"
  shows "\<exists>a. calls (snd (KafkaClient_init e args w)) =
             calls w @ [ThreadingHandler_created (next_ref w), Cluster_created (next_ref w + 1) a]
           \<and> ca_socket_timeout_ms a = 30000
           \<and> ca_offsets_channel_socket_timeout_ms a = 10000
           \<and> ca_exclude_internal_topics a = True
           \<and> (\<forall>kc. fst (KafkaClient_init e args w) = Inr kc \<longrightarrow>
                  kc_socket_timeout_ms kc = 30000
                \<and> kc_offsets_channel_socket_timeout_ms kc = 10000
                \<and> c_config (cluster_obj (snd (KafkaClient_init e args w)) (kc_cluster kc)) = a)"
proof -
  let ?a = "forwarded (bind_args args) (next_ref w)"
  have fields: "ca_socket_timeout_ms ?a = 30000" "ca_offsets_channel_socket_timeout_ms ?a = 10000"
    "ca_exclude_internal_topics ?a = True"
    using assms by (simp_all add: forwarded_def bind_args_def)
  have log: "calls (snd (KafkaClient_init e args w)) =
      calls w @ [ThreadingHandler_created (next_ref w), Cluster_created (next_ref w + 1) ?a]"
    by (rule KafkaClient_init_calls)
  have client: "kc_socket_timeout_ms kc = 30000
        \<and> kc_offsets_channel_socket_timeout_ms kc = 10000
        \<and> c_config (cluster_obj (snd (KafkaClient_init e args w)) (kc_cluster kc)) = ?a"
    if "fst (KafkaClient_init e args w) = Inr kc" for kc
  proof -
    from that have kc: "kc_cluster kc = next_ref w + 1"
      "kc_socket_timeout_ms kc = socket_timeout_ms (bind_args args)"
      "kc_offsets_channel_socket_timeout_ms kc = offsets_channel_socket_timeout_ms (bind_args args)"
      by (auto simp: KafkaClient_init_result split: option.splits)
    show ?thesis
      using assms by (simp add: kc KafkaClient_init_world Cluster_new_cluster_obj)
        (simp add: bind_args_def)
  qed
  from fields log client show ?thesis by blast
qed

theorem default_configuration_witness:
  "arg_socket_timeout_ms no_args = None
   \<and> arg_offsets_channel_socket_timeout_ms no_args = None
   \<and> arg_exclude_internal_topics no_args = None
   \<and> fst (KafkaClient_init reachable_env no_args empty_world) = Inr example_client
   \<and> kc_socket_timeout_ms example_client = 30000
   \<and> kc_offsets_channel_socket_timeout_ms example_client = 10000
   \<and> ca_socket_timeout_ms (c_config (cluster_obj example_world 1)) = 30000
   \<and> ca_offsets_channel_socket_timeout_ms (c_config (cluster_obj example_world 1)) = 10000
   \<and> ca_exclude_internal_topics (c_config (cluster_obj example_world 1)) = True"
proof -
  have omitted: "arg_socket_timeout_ms no_args = None"
    "arg_offsets_channel_socket_timeout_ms no_args = None"
    "arg_exclude_internal_topics no_args = None"
    by (simp_all add: no_args_def)
  from default_configuration [OF omitted, of reachable_env empty_world] omitted
  show ?thesis
    by (simp add: example_client_made example_world_cluster example_client_def)
qed

text \<open>
  C4. For every choice of constructor arguments the facade constructs exactly one
  coordinator and forwards to it the host list, the coordination-service address, the two
  timeouts, the internal-topics switch and the source address, unchanged: the
  construction adds to the call record one handler and one \<^verbatim>\<open>Cluster\<close> constructor call;
  each value that call carries is the argument that was passed, or the default of the
  signature where the argument was omitted; when all six arguments are passed the call
  carries exactly those six values; and a client that results holds that coordinator.
\<close>

theorem cluster_constructed_once:
  "calls (snd (KafkaClient_init e args w)) =
     calls w @
       [ThreadingHandler_created (next_ref w),
        Cluster_created (next_ref w + 1)
          \<lparr>ca_hosts = (case arg_hosts args of None \<Rightarrow> ''127.0.0.1:9092'' | Some h \<Rightarrow> h),
           ca_handler = next_ref w,
           ca_socket_timeout_ms =
             (case arg_socket_timeout_ms args of None \<Rightarrow> 30000 | Some t \<Rightarrow> t),
           ca_offsets_channel_socket_timeout_ms =
             (case arg_offsets_channel_socket_timeout_ms args of None \<Rightarrow> 10000 | Some t \<Rightarrow> t),
           ca_exclude_internal_topics =
             (case arg_exclude_internal_topics args of None \<Rightarrow> True | Some x \<Rightarrow> x),
           ca_source_address = (case arg_source_address args of None \<Rightarrow> '''' | Some s \<Rightarrow> s),
           ca_zookeeper_hosts = (case arg_zookeeper_hosts args of None \<Rightarrow> None | Some z \<Rightarrow> z)\<rparr>]
   \<and> calls (snd (KafkaClient_init e
          \<lparr>arg_hosts = Some h, arg_zookeeper_hosts = Some zk, arg_socket_timeout_ms = Some st,
           arg_offsets_channel_socket_timeout_ms = Some ot, arg_exclude_internal_topics = Some ex,
           arg_source_address = Some sa\<rparr> w)) =
       calls w @
         [ThreadingHandler_created (next_ref w),
          Cluster_created (next_ref w + 1)
            \<lparr>ca_hosts = h, ca_handler = next_ref w, ca_socket_timeout_ms = st,
             ca_offsets_channel_socket_timeout_ms = ot, ca_exclude_internal_topics = ex,
             ca_source_address = sa, ca_zookeeper_hosts = zk\<rparr>]
   \<and> (case fst (KafkaClient_init e args w) of
         Inl err \<Rightarrow> err = ClusterUnreachable
       | Inr kc \<Rightarrow> kc_cluster kc = next_ref w + 1)"
proof -
  have general: "forwarded (bind_args a) (next_ref w) =
          \<lparr>ca_hosts = (case arg_hosts a of None \<Rightarrow> ''127.0.0.1:9092'' | Some h \<Rightarrow> h),
           ca_handler = next_ref w,
           ca_socket_timeout_ms =
             (case arg_socket_timeout_ms a of None \<Rightarrow> 30000 | Some t \<Rightarrow> t),
           ca_offsets_channel_socket_timeout_ms =
             (case arg_offsets_channel_socket_timeout_ms a of None \<Rightarrow> 10000 | Some t \<Rightarrow> t),
           ca_exclude_internal_topics =
             (case arg_exclude_internal_topics a of None \<Rightarrow> True | Some x \<Rightarrow> x),
           ca_source_address = (case arg_source_address a of None \<Rightarrow> '''' | Some s \<Rightarrow> s),
           ca_zookeeper_hosts = (case arg_zookeeper_hosts a of None \<Rightarrow> None | Some z \<Rightarrow> z)\<rparr>"
    for a
    by (simp add: forwarded_def bind_args_def split: option.splits)
  have made: "(case fst (KafkaClient_init e args w) of
         Inl err \<Rightarrow> err = ClusterUnreachable
       | Inr kc \<Rightarrow> kc_cluster kc = next_ref w + 1)"
    by (simp add: KafkaClient_init_result split: option.splits)
  show ?thesis
    by (simp only: KafkaClient_init_calls general made) simp
qed

theorem cluster_constructed_once_witness:
  "calls (snd (KafkaClient_init unreachable_env custom_args empty_world)) =
     [ThreadingHandler_created 0,
      Cluster_created 1
        \<lparr>ca_hosts = ''k9:9092'', ca_handler = 0, ca_socket_timeout_ms = 5,
         ca_offsets_channel_socket_timeout_ms = 7, ca_exclude_internal_topics = False,
         ca_source_address = ''10.0.0.1:4000'', ca_zookeeper_hosts = Some ''zk1:2181''\<rparr>]
   \<and> fst (KafkaClient_init unreachable_env custom_args empty_world) = Inl ClusterUnreachable
   \<and> calls (snd (KafkaClient_init reachable_env timeout_args empty_world)) =
     [ThreadingHandler_created 0,
      Cluster_created 1
        \<lparr>ca_hosts = ''127.0.0.1:9092'', ca_handler = 0, ca_socket_timeout_ms = 5,
         ca_offsets_channel_socket_timeout_ms = 10000, ca_exclude_internal_topics = True,
         ca_source_address = '''', ca_zookeeper_hosts = None\<rparr>]
   \<and> fst (KafkaClient_init reachable_env timeout_args empty_world) =
       Inr \<lparr>kc_seed_hosts = ''127.0.0.1:9092'', kc_source_address = '''',
            kc_socket_timeout_ms = 5, kc_offsets_channel_socket_timeout_ms = 10000,
            kc_handler = 0, kc_cluster = 1, kc_brokers = 2, kc_topics = 3\<rparr>"
  using cluster_constructed_once [of unreachable_env custom_args empty_world]
    cluster_constructed_once [of reachable_env timeout_args empty_world]
  by (simp add: KafkaClient_init_result custom_args_def timeout_args_def no_args_def bind_args_def
      resolve_seed_def unreachable_env_def reachable_env_def empty_world_def)

text \<open>
  C5. After construction the facade's \<^verbatim>\<open>brokers\<close> and \<^verbatim>\<open>topics\<close> attributes are the very
  Broker Registry and Topic Registry objects its coordinator holds, and they stay so
  through every later run of refreshes: what a reconciliation does to the coordinator's
  registries is read through the facade's attributes, which are never assigned again.
\<close>

theorem registries_are_shared:
  assumes "fst (KafkaClient_init e args w) = Inr kc"
  shows "kc_brokers kc = c_brokers (cluster_obj (snd (KafkaClient_init e args w)) (kc_cluster kc))
       \<and> kc_topics kc = c_topics (cluster_obj (snd (KafkaClient_init e args w)) (kc_cluster kc))
       \<and> (\<forall>rs. kc_brokers kc =
              c_brokers (cluster_obj (refreshes (kc_cluster kc) rs (snd (KafkaClient_init e args w)))
                 (kc_cluster kc))
            \<and> kc_topics kc =
              c_topics (cluster_obj (refreshes (kc_cluster kc) rs (snd (KafkaClient_init e args w)))
                 (kc_cluster kc)))"
proof -
  from assms have kc: "kc_cluster kc = next_ref w + 1" "kc_brokers kc = next_ref w + 2"
    "kc_topics kc = next_ref w + 3"
    by (auto simp: KafkaClient_init_result split: option.splits)
  show ?thesis
    by (simp add: kc refreshes_cluster_obj KafkaClient_init_world Cluster_new_cluster_obj)
qed

theorem registries_are_shared_witness:
  "fst (KafkaClient_init reachable_env no_args empty_world) = Inr example_client
   \<and> kc_brokers example_client = c_brokers (cluster_obj example_world (kc_cluster example_client))
   \<and> kc_topics example_client = c_topics (cluster_obj example_world (kc_cluster example_client))
   \<and> broker_registry example_world (kc_brokers example_client) =
       [(1, \<lparr>bh_id = 1, bh_host = ''k1'', bh_port = 9092, bh_conn = 4, bh_offsets_conn = 5\<rparr>),
        (2, \<lparr>bh_id = 2, bh_host = ''k2'', bh_port = 9092, bh_conn = 6, bh_offsets_conn = 7\<rparr>)]
   \<and> broker_registry (refreshes (kc_cluster example_client) [(moved_env, NoArg)] example_world)
         (kc_brokers example_client) =
       [(2, \<lparr>bh_id = 2, bh_host = ''k2'', bh_port = 9092, bh_conn = 6, bh_offsets_conn = 7\<rparr>),
        (3, \<lparr>bh_id = 3, bh_host = ''k3'', bh_port = 9092, bh_conn = 8, bh_offsets_conn = 9\<rparr>)]
   \<and> map fst (topic_registry (refreshes (kc_cluster example_client) [(moved_env, NoArg)] example_world)
         (kc_topics example_client)) = [''t'', ''u'']"
  using registries_are_shared [of reachable_env no_args empty_world example_client]
  by (simp add: example_client_made example_world_simps moved_refresh_brokers moved_refresh_topics
      flip: example_world_def)
    (simp add: example_client_def example_world_simps moved_refresh_brokers moved_refresh_topics)

text \<open>
  C10. Constructing a \<^verbatim>\<open>KafkaClient\<close> with no arguments at all is accepted: the
  coordinator is constructed with the host list \<^verbatim>\<open>127.0.0.1:9092\<close>, no coordination-service
  address and the other defaults, its candidates are the static reading of that list,
  and when one of them answers the client results, with that list as its
  \<^verbatim>\<open>_seed_hosts\<close>; otherwise the construction fails as the coordinator's does.
\<close>

theorem no_argument_construction:
  "calls (snd (KafkaClient_init e no_args w)) =
     calls w @
       [ThreadingHandler_created (next_ref w),
        Cluster_created (next_ref w + 1)
          \<lparr>ca_hosts = ''127.0.0.1:9092'', ca_handler = next_ref w,
           ca_socket_timeout_ms = 30000, ca_offsets_channel_socket_timeout_ms = 10000,
           ca_exclude_internal_topics = True, ca_source_address = '''',
           ca_zookeeper_hosts = None\<rparr>]
   \<and> c_seed_hosts (cluster_obj (snd (KafkaClient_init e no_args w)) (next_ref w + 1)) =
       static_hosts e ''127.0.0.1:9092''
   \<and> fst (KafkaClient_init e no_args w) =
       (case ask_seeds e None (static_hosts e ''127.0.0.1:9092'') of
          None \<Rightarrow> Inl ClusterUnreachable
        | Some md \<Rightarrow>
            Inr \<lparr>kc_seed_hosts = ''127.0.0.1:9092'', kc_source_address = '''',
                 kc_socket_timeout_ms = 30000, kc_offsets_channel_socket_timeout_ms = 10000,
                 kc_handler = next_ref w, kc_cluster = next_ref w + 1,
                 kc_brokers = next_ref w + 2, kc_topics = next_ref w + 3\<rparr>)"
proof -
  have p: "bind_args no_args =
      \<lparr>hosts = ''127.0.0.1:9092'', zookeeper_hosts = None, socket_timeout_ms = 30000,
       offsets_channel_socket_timeout_ms = 10000, exclude_internal_topics = True,
       source_address = ''''\<rparr>"
    by (simp add: bind_args_def no_args_def)
  have log: "calls (snd (KafkaClient_init e no_args w)) =
     calls w @
       [ThreadingHandler_created (next_ref w),
        Cluster_created (next_ref w + 1)
          \<lparr>ca_hosts = ''127.0.0.1:9092'', ca_handler = next_ref w,
           ca_socket_timeout_ms = 30000, ca_offsets_channel_socket_timeout_ms = 10000,
           ca_exclude_internal_topics = True, ca_source_address = '''',
           ca_zookeeper_hosts = None\<rparr>]"
    by (simp add: KafkaClient_init_calls forwarded_def p)
  have obj: "c_seed_hosts (cluster_obj (snd (KafkaClient_init e no_args w)) (next_ref w + 1)) =
       static_hosts e ''127.0.0.1:9092''"
    by (simp add: KafkaClient_init_world Cluster_new_cluster_obj forwarded_def resolve_seed_def p)
  have res: "fst (KafkaClient_init e no_args w) =
       (case ask_seeds e None (static_hosts e ''127.0.0.1:9092'') of
          None \<Rightarrow> Inl ClusterUnreachable
        | Some md \<Rightarrow>
            Inr \<lparr>kc_seed_hosts = ''127.0.0.1:9092'', kc_source_address = '''',
                 kc_socket_timeout_ms = 30000, kc_offsets_channel_socket_timeout_ms = 10000,
                 kc_handler = next_ref w, kc_cluster = next_ref w + 1,
                 kc_brokers = next_ref w + 2, kc_topics = next_ref w + 3\<rparr>)"
    by (simp add: KafkaClient_init_result resolve_seed_def p cong: option.case_cong)
  from log obj res show ?thesis by (intro conjI)
qed

theorem no_argument_construction_witness:
  "fst (KafkaClient_init reachable_env no_args empty_world) = Inr example_client
   \<and> kc_seed_hosts example_client = ''127.0.0.1:9092''
   \<and> fst (KafkaClient_init unreachable_env no_args empty_world) = Inl ClusterUnreachable
   \<and> calls example_world =
       [ThreadingHandler_created 0,
        Cluster_created 1
          \<lparr>ca_hosts = ''127.0.0.1:9092'', ca_handler = 0, ca_socket_timeout_ms = 30000,
           ca_offsets_channel_socket_timeout_ms = 10000, ca_exclude_internal_topics = True,
           ca_source_address = '''', ca_zookeeper_hosts = None\<rparr>]"
  using no_argument_construction [of reachable_env empty_world]
    no_argument_construction [of unreachable_env empty_world]
  by (simp add: example_client_def example_world_def reachable_env_def unreachable_env_def
      empty_world_def)

subsection \<open>The cluster coordinator\<close>

text \<open>
  C6. If a metadata refresh fails against every known broker and every seed candidate,
  it fails with \<open>ClusterUnreachable\<close> and the cached topology is exactly as it was
  before the call: the contents of every Broker Registry and of every Topic Registry
  are unchanged.
\<close>

theorem total_failure_keeps_topology:
  assumes "list_all (\<lambda>(i, b). metadata_reply e (bh_host b, bh_port b) (requested_topics targ) = None)
             (broker_registry w (c_brokers (cluster_obj w self)))"
    and "list_all (\<lambda>a. metadata_reply e a (requested_topics targ) = None)
             (c_seed_hosts (cluster_obj w self))"
  shows "fst (Cluster_update e self targ w) = Inl ClusterUnreachable
       \<and> broker_registry (snd (Cluster_update e self targ w)) = broker_registry w
       \<and> topic_registry (snd (Cluster_update e self targ w)) = topic_registry w"
  using Cluster_update_failure [OF ask_brokers_all_fail [OF assms(1)] ask_seeds_all_fail [OF assms(2)]]
  by simp

theorem total_failure_keeps_topology_witness:
  "list_all (\<lambda>(i, b). metadata_reply unreachable_env (bh_host b, bh_port b) (requested_topics NoArg) = None)
      (broker_registry example_world (c_brokers (cluster_obj example_world 1)))
   \<and> list_all (\<lambda>a. metadata_reply unreachable_env a (requested_topics NoArg) = None)
      (c_seed_hosts (cluster_obj example_world 1))
   \<and> fst (Cluster_update unreachable_env 1 NoArg example_world) = Inl ClusterUnreachable
   \<and> broker_registry (snd (Cluster_update unreachable_env 1 NoArg example_world)) 2 =
       [(1, \<lparr>bh_id = 1, bh_host = ''k1'', bh_port = 9092, bh_conn = 4, bh_offsets_conn = 5\<rparr>),
        (2, \<lparr>bh_id = 2, bh_host = ''k2'', bh_port = 9092, bh_conn = 6, bh_offsets_conn = 7\<rparr>)]
   \<and> topic_registry (snd (Cluster_update unreachable_env 1 NoArg example_world)) 3 =
       [(''t'', [(0, \<lparr>p_id = 0, p_leader = Some 2, p_replicas = [1, 2], p_isr = [2]\<rparr>)])]"
proof -
  have known: "list_all (\<lambda>(i, b). metadata_reply unreachable_env (bh_host b, bh_port b) (requested_topics NoArg) = None)
      (broker_registry example_world (c_brokers (cluster_obj example_world 1)))"
    by (simp add: example_world_simps unreachable_env_def)
  have seeds: "list_all (\<lambda>a. metadata_reply unreachable_env a (requested_topics NoArg) = None)
      (c_seed_hosts (cluster_obj example_world 1))"
    by (simp add: example_world_simps unreachable_env_def)
  from total_failure_keeps_topology [OF known seeds] known seeds show ?thesis
    by (simp add: example_world_simps)
qed

text \<open>
  C8. Reconciliation is idempotent. When \<^verbatim>\<open>update()\<close> is called twice in succession and
  the network serves the same metadata response to both calls, the second call leaves
  the Broker Registry as the first left it, handle by handle, so every broker keeps its
  two Connection objects; it creates no object; and the set of Connection objects is
  the same. The state of the Connections after the second call is the state the
  requests of that call left: the reconciliation opens and closes nothing. No
  Connection other than the general Connection of a tracked broker changes its state,
  and when every tracked broker answers, every Connection that was open is still open.
  Reconciling the store the first call left against the same broker list changes
  nothing in it, whatever the Connection states and the call record are.
\<close>

theorem unchanged_response_keeps_connections:
  assumes first_reply: "\<forall>a. metadata_reply e1 a (requested_topics targ) = None
                         \<or> metadata_reply e1 a (requested_topics targ) = Some md"
    and second_reply: "\<forall>a. metadata_reply e2 a (requested_topics targ) = None
                         \<or> metadata_reply e2 a (requested_topics targ) = Some md"
    and first: "fst (Cluster_update e1 self targ w) = Inr ()"
  shows "broker_registry (snd (Cluster_update e2 self targ (snd (Cluster_update e1 self targ w)))) =
           broker_registry (snd (Cluster_update e1 self targ w))
       \<and> next_ref (snd (Cluster_update e2 self targ (snd (Cluster_update e1 self targ w)))) =
           next_ref (snd (Cluster_update e1 self targ w))
       \<and> connection_objects (snd (Cluster_update e2 self targ (snd (Cluster_update e1 self targ w))))
             (c_brokers (cluster_obj w self)) =
           connection_objects (snd (Cluster_update e1 self targ w)) (c_brokers (cluster_obj w self))
       \<and> connection_open (snd (Cluster_update e2 self targ (snd (Cluster_update e1 self targ w)))) =
           snd (ask_brokers e2 (requested_topics targ)
                  (broker_registry (snd (Cluster_update e1 self targ w)) (c_brokers (cluster_obj w self)))
                  (connection_open (snd (Cluster_update e1 self targ w))))
       \<and> (\<forall>c. c \<notin> (\<lambda>(i, b). bh_conn b) `
                   set (broker_registry (snd (Cluster_update e1 self targ w))
                          (c_brokers (cluster_obj w self))) \<longrightarrow>
              connection_open (snd (Cluster_update e2 self targ (snd (Cluster_update e1 self targ w)))) c =
              connection_open (snd (Cluster_update e1 self targ w)) c)
       \<and> (list_all (\<lambda>(i, b). metadata_reply e2 (bh_host b, bh_port b) (requested_topics targ) \<noteq> None)
              (broker_registry (snd (Cluster_update e1 self targ w)) (c_brokers (cluster_obj w self))) \<longrightarrow>
            (\<forall>c. connection_open (snd (Cluster_update e1 self targ w)) c \<longrightarrow>
              connection_open (snd (Cluster_update e2 self targ (snd (Cluster_update e1 self targ w)))) c))
       \<and> (\<forall>cs log. reconcile (md_brokers md) (c_brokers (cluster_obj w self))
                       ((snd (Cluster_update e1 self targ w))\<lparr>calls := log, connection_open := cs\<rparr>) =
                     (snd (Cluster_update e1 self targ w))\<lparr>calls := log, connection_open := cs\<rparr>)"
proof -
  let ?c = "cluster_obj w self"
  let ?ts = "requested_topics targ"
  let ?w1 = "snd (Cluster_update e1 self targ w)"
  let ?w2 = "snd (Cluster_update e2 self targ ?w1)"
  let ?reg = "broker_registry ?w1 (c_brokers ?c)"
  let ?cs2 = "snd (ask_brokers e2 ?ts ?reg (connection_open ?w1))"
  from first Cluster_update_outcome [of e1 self targ w]
  obtain md1 a1 where a1: "metadata_reply e1 a1 ?ts = Some md1"
    and w1: "?w1 = apply_metadata md1 ?c
                (w\<lparr>calls := calls w @ [Update_called self targ],
                   connection_open := snd (ask_brokers e1 ?ts
                      (broker_registry w (c_brokers ?c)) (connection_open w))\<rparr>)"
    by auto
  from a1 first_reply have "md1 = md" by (metis option.distinct(1) option.inject)
  with w1 have keys1: "fst ` set ?reg = fst ` set (md_brokers md)"
    by (simp add: apply_metadata_broker_keys)
  have c1: "cluster_obj ?w1 self = ?c"
    by (simp add: Cluster_update_cluster_obj)
  have second: "broker_registry ?w2 = broker_registry ?w1 \<and> next_ref ?w2 = next_ref ?w1
      \<and> connection_open ?w2 = ?cs2"
    using Cluster_update_outcome [of e2 self targ ?w1]
  proof (elim disjE exE conjE)
    assume "?w2 = ?w1\<lparr>calls := calls ?w1 @ [Update_called self targ],
        connection_open := snd (ask_brokers e2 ?ts
          (broker_registry ?w1 (c_brokers (cluster_obj ?w1 self))) (connection_open ?w1))\<rparr>"
    with c1 show ?thesis by simp
  next
    fix md2 a2
    assume a2: "metadata_reply e2 a2 ?ts = Some md2"
      and w2: "?w2 = apply_metadata md2 (cluster_obj ?w1 self)
                 (?w1\<lparr>calls := calls ?w1 @ [Update_called self targ],
                    connection_open := snd (ask_brokers e2 ?ts
                      (broker_registry ?w1 (c_brokers (cluster_obj ?w1 self))) (connection_open ?w1))\<rparr>)"
    from a2 second_reply have "md2 = md" by (metis option.distinct(1) option.inject)
    with w2 c1 keys1 show ?thesis
      by (simp add: apply_metadata_reconciled)
  qed
  have elsewhere: "connection_open ?w2 c = connection_open ?w1 c"
    if "c \<notin> (\<lambda>(i, b). bh_conn b) ` set ?reg" for c
    using second that by (simp add: ask_brokers_elsewhere)
  have kept: "connection_open ?w2 c"
    if "list_all (\<lambda>(i, b). metadata_reply e2 (bh_host b, bh_port b) ?ts \<noteq> None) ?reg"
      and "connection_open ?w1 c" for c
    using second that by (auto simp: ask_brokers_all_answer split: list.splits)
  have again: "reconcile (md_brokers md) (c_brokers ?c) (?w1\<lparr>calls := log, connection_open := cs\<rparr>) =
      ?w1\<lparr>calls := log, connection_open := cs\<rparr>" for cs log
    by (rule reconcile_reconciled) (simp add: keys1)
  from second elsewhere kept again show ?thesis
    by (simp add: connection_objects_def)
qed


theorem unchanged_response_keeps_connections_witness:
  "(\<forall>a. metadata_reply k2_only_env a (requested_topics NoArg) = None
        \<or> metadata_reply k2_only_env a (requested_topics NoArg) = Some example_metadata)
   \<and> (\<forall>a. metadata_reply reachable_env a (requested_topics NoArg) = None
        \<or> metadata_reply reachable_env a (requested_topics NoArg) = Some example_metadata)
   \<and> fst (Cluster_update k2_only_env 1 NoArg example_world) = Inr ()
   \<and> fst (Cluster_update reachable_env 1 NoArg
            (snd (Cluster_update k2_only_env 1 NoArg example_world))) = Inr ()
   \<and> broker_registry (snd (Cluster_update k2_only_env 1 NoArg example_world)) 2 =
       [(1, \<lparr>bh_id = 1, bh_host = ''k1'', bh_port = 9092, bh_conn = 4, bh_offsets_conn = 5\<rparr>),
        (2, \<lparr>bh_id = 2, bh_host = ''k2'', bh_port = 9092, bh_conn = 6, bh_offsets_conn = 7\<rparr>)]
   \<and> broker_registry
         (snd (Cluster_update reachable_env 1 NoArg
            (snd (Cluster_update k2_only_env 1 NoArg example_world)))) 2 =
       [(1, \<lparr>bh_id = 1, bh_host = ''k1'', bh_port = 9092, bh_conn = 4, bh_offsets_conn = 5\<rparr>),
        (2, \<lparr>bh_id = 2, bh_host = ''k2'', bh_port = 9092, bh_conn = 6, bh_offsets_conn = 7\<rparr>)]
   \<and> map (connection_open (snd (Cluster_update k2_only_env 1 NoArg example_world))) [4, 5, 6, 7] =
       [False, False, True, False]
   \<and> map (connection_open
         (snd (Cluster_update reachable_env 1 NoArg
            (snd (Cluster_update k2_only_env 1 NoArg example_world))))) [4, 5, 6, 7] =
       [True, False, True, False]
   \<and> next_ref (snd (Cluster_update reachable_env 1 NoArg
         (snd (Cluster_update k2_only_env 1 NoArg example_world)))) = 8
   \<and> connection_objects
         (snd (Cluster_update reachable_env 1 NoArg
            (snd (Cluster_update k2_only_env 1 NoArg example_world)))) 2 =
       {4, 5, 6, 7}"
proof -
  let ?w1 = "snd (Cluster_update k2_only_env (Suc 0) NoArg example_world)"
  have reply1: "\<forall>a. metadata_reply k2_only_env a (requested_topics NoArg) = None
        \<or> metadata_reply k2_only_env a (requested_topics NoArg) = Some example_metadata"
    by (simp add: k2_only_env_def)
  have reply2: "\<forall>a. metadata_reply reachable_env a (requested_topics NoArg) = None
        \<or> metadata_reply reachable_env a (requested_topics NoArg) = Some example_metadata"
    by (simp add: reachable_env_def)
  have first: "fst (Cluster_update k2_only_env 1 NoArg example_world) = Inr ()"
    by (simp add: k2_refresh_result)
  have "fst (Cluster_update reachable_env (Suc 0) NoArg ?w1) = Inr ()"
  proof (rule Cluster_update_answered)
    show "broker_registry ?w1 (c_brokers (cluster_obj ?w1 (Suc 0))) =
        (1, \<lparr>bh_id = 1, bh_host = ''k1'', bh_port = 9092, bh_conn = 4, bh_offsets_conn = 5\<rparr>) #
        [(2, \<lparr>bh_id = 2, bh_host = ''k2'', bh_port = 9092, bh_conn = 6, bh_offsets_conn = 7\<rparr>)]"
      by (simp add: Cluster_update_cluster_obj example_world_simps k2_refresh_brokers)
    show "metadata_reply reachable_env
        (bh_host \<lparr>bh_id = 1, bh_host = ''k1'', bh_port = 9092, bh_conn = 4, bh_offsets_conn = 5\<rparr>,
         bh_port \<lparr>bh_id = 1, bh_host = ''k1'', bh_port = 9092, bh_conn = 4, bh_offsets_conn = 5\<rparr>)
        (requested_topics NoArg) = Some example_metadata"
      by (simp add: reachable_env_def)
  qed
  then have second: "fst (Cluster_update reachable_env 1 NoArg
      (snd (Cluster_update k2_only_env 1 NoArg example_world))) = Inr ()"
    by simp
  from unchanged_response_keeps_connections [OF reply1 reply2 first] reply1 reply2 first second
  show ?thesis
    by (simp add: example_world_simps k2_refresh_brokers k2_refresh_connections k2_refresh_next_ref
        connection_objects_def insert_commute reachable_env_def requested_topics_def)
qed






text \<open>A lookup that finds the leader answers from the cache and triggers no refresh.\<close>

lemma leader_for_known:
  "find_leader w self topic part = Some b \<Longrightarrow> leader_for e self topic part w = (Inr b, w)"
  by (simp add: leader_for_def)

end
